theory Spec2Isabelle
  imports Main
begin

section \<open>JavaScript values used by the page\<close>

text \<open>
  The page module declares three arrays of object literals and one
  function component \<^verbatim>\<open>App\<close> that returns a JSX tree. Strings are lists of code
  units, numbers that occur as data are integers, and an object property that a literal
  does not declare reads as \<^verbatim>\<open>undefined\<close>, modelled by \<open>None\<close>.
\<close>

text \<open>
  \<^verbatim>\<open>String(n)\<close> for an integer \<open>n\<close> of magnitude below \<open>2^53\<close>, where every integer is
  a number of the language and prints as its decimal digits, a minus sign first. The
  numbers of the page are the ids 1, 2, 3 and the indices of the cards.
\<close>

definition digit_char :: "nat \<Rightarrow> char" where
  "digit_char d = char_of (48 + d)"

fun nat_to_string :: "nat \<Rightarrow> string" where
  "nat_to_string n =
     (if n < 10 then [digit_char n] else nat_to_string (n div 10) @ [digit_char (n mod 10)])"

declare nat_to_string.simps [simp del]

definition number_to_string :: "int \<Rightarrow> string" where
  "number_to_string i =
     (if i < 0 then CHR ''-'' # nat_to_string (nat (- i)) else nat_to_string (nat i))"

text \<open>
  \<^verbatim>\<open>Array.prototype.join(sep)\<close> on an array of strings: the empty array gives the empty
  string, otherwise the elements in index order with \<open>sep\<close> between neighbours.
\<close>

fun join :: "string \<Rightarrow> string list \<Rightarrow> string" where
  "join sep [] = []"
| "join sep [x] = x"
| "join sep (x # y # ys) = x @ sep @ join sep (y # ys)"

text \<open>
  The conditional \<^verbatim>\<open>v ? f(v) : empty\<close> on a property that may be absent: a string is
  truthy when it is present and not empty.
\<close>

definition if_truthy :: "string option \<Rightarrow> (string \<Rightarrow> string) \<Rightarrow> string" where
  "if_truthy v f = (case v of None \<Rightarrow> [] | Some s \<Rightarrow> if s \<noteq> [] then f s else [])"

section \<open>The three record sets\<close>

record Reference =
  id_ref :: int
  authors :: string
  title :: string
  journal :: string
  year :: string
  volume :: "string option"
  issue :: "string option"
  pages :: "string option"

record Finding =
  metric :: string
  value_fd :: string
  description :: string
  source :: string

record Author =
  name :: string
  affiliation :: string

definition REFERENCES :: "Reference list" where
  "REFERENCES =
    [\<lparr>id_ref = 1, authors = ''Smith, J., & Johnson, K.'',
       title = ''Scalable API Architecture Patterns'',
       journal = ''Journal of Systems Architecture'', year = ''2024'',
       volume = Some ''142'', issue = None, pages = Some ''102889''\<rparr>,
     \<lparr>id_ref = 2, authors = ''Chen, L., et al.'',
       title = ''Async Performance Benchmarks in Python'',
       journal = ''Proceedings of the 2024 Python Conference'', year = ''2024'',
       volume = None, issue = None, pages = Some ''234-251''\<rparr>,
     \<lparr>id_ref = 3, authors = ''Williams, R., & Davis, M.'',
       title = ''Microservices Communication Patterns'',
       journal = ''IEEE Software'', year = ''2023'',
       volume = Some ''40'', issue = Some ''3'', pages = Some ''45-58''\<rparr>]"

definition KEY_FINDINGS :: "Finding list" where
  "KEY_FINDINGS =
    [\<lparr>metric = ''Response Latency'', value_fd = ''42%'',
       description = ''Reduction in median response time compared to traditional WSGI implementations'',
       source = ''[2]''\<rparr>,
     \<lparr>metric = ''Throughput'', value_fd = ''3.2x'',
       description = ''Higher request throughput under concurrent load conditions'',
       source = ''[2]''\<rparr>,
     \<lparr>metric = ''Memory Usage'', value_fd = ''28%'',
       description = ''Lower memory footprint during sustained operation'',
       source = ''[1]''\<rparr>]"

definition AUTHORS :: "Author list" where
  "AUTHORS =
    [\<lparr>name = ''Dr. Sarah Mitchell'',
       affiliation = ''Department of Computer Science, Stanford University''\<rparr>,
     \<lparr>name = ''Prof. James Chen'', affiliation = ''Software Systems Laboratory, MIT''\<rparr>,
     \<lparr>name = ''Dr. Emily Watson'',
       affiliation = ''Data Science Institute, Oxford University''\<rparr>]"

text \<open>
  The bindings are \<^verbatim>\<open>const\<close>, but the arrays they name are ordinary mutable arrays.
  The module scope that a call of \<^verbatim>\<open>App\<close> can read and could write is therefore a
  state, passed to the component and returned by it.
\<close>

record module_scope =
  references_binding :: "Reference list"
  key_findings_binding :: "Finding list"
  authors_binding :: "Author list"

definition module_load :: module_scope where
  "module_load =
     \<lparr>references_binding = REFERENCES, key_findings_binding = KEY_FINDINGS,
      authors_binding = AUTHORS\<rparr>"

section \<open>The element tree\<close>

text \<open>
  A prop value is a string, an integer literal, a decimal literal \<open>m / 10^k\<close>, an object
  literal, or the product \<^verbatim>\<open>idx * 0.1\<close>, which is kept as a term: it is a
  double-precision product handed to the animation library.
\<close>

datatype prop_value =
    PStr string
  | PNum int
  | PDec int nat
  | PMul prop_value prop_value
  | PObj "(string \<times> prop_value) list"

text \<open>
  A child of an element is a text, a number, or an element with a tag (an HTML tag or an
  imported component), its props in source order (the \<^verbatim>\<open>key\<close> among them) and its
  children. An array among the children stands for its elements in order.
\<close>

datatype node =
    Text string
  | Num int
  | Element string "(string \<times> prop_value) list" "node list"

definition className :: "string \<Rightarrow> string \<times> prop_value" where
  "className c = (''className'', PStr c)"

definition icon :: "string \<Rightarrow> string \<Rightarrow> node" where
  "icon component c = Element component [className c] []"

section \<open>The component \<^verbatim>\<open>App\<close>\<close>

text \<open>
  The JSX of \<^verbatim>\<open>App\<close>, top to bottom. JSX text is trimmed at line ends; text next to
  an element on the same line keeps its blank.
\<close>

definition nav_link :: "string \<Rightarrow> node" where
  "nav_link label =
     Element ''a'' [(''href'', PStr ''#''), className ''text-slate-600 hover:text-slate-900'']
       [Text label]"

definition page_header :: node where
  "page_header =
     Element ''header'' [className ''bg-white border-b border-slate-200 sticky top-0 z-50'']
      [Element ''div'' [className ''max-w-5xl mx-auto px-8 py-4 flex items-center justify-between'']
        [Element ''div'' [className ''flex items-center gap-4'']
          [Element ''div'' [className ''p-2 bg-slate-100 rounded'']
             [icon ''BookOpen'' ''w-5 h-5 text-slate-700''],
           Element ''span'' [className ''font-semibold text-slate-900''] [Text ''ScholarStack'']],
         Element ''div'' [className ''flex items-center gap-6 text-sm'']
          [nav_link ''Abstract'',
           nav_link ''Introduction'',
           nav_link ''Methods'',
           nav_link ''Results'',
           nav_link ''Discussion'',
           Element ''button''
             [className ''flex items-center gap-2 px-3 py-1.5 bg-slate-900 text-white rounded hover:bg-slate-800 transition-colors'']
             [icon ''Download'' ''w-4 h-4'', Text '' PDF'']]]]"

text \<open>
  \<^verbatim>\<open>AUTHORS.map(a => a.name).join(", ")\<close> and
  \<^verbatim>\<open>AUTHORS.map(a => a.affiliation).join("; ")\<close>.
\<close>

definition author_block :: "Author list \<Rightarrow> node" where
  "author_block as =
     Element ''div'' [className ''author-block'']
      [Element ''p'' [className ''author-name''] [Text (join '', '' (map name as))],
       Element ''p'' [className ''author-affiliation'']
         [Text (join ''; '' (map affiliation as))]]"

definition meta_item :: "string \<Rightarrow> string \<Rightarrow> node" where
  "meta_item component label =
     Element ''span'' [className ''flex items-center gap-1'']
       [icon component ''w-4 h-4'', Text label]"

definition title_block :: "Author list \<Rightarrow> node" where
  "title_block as =
     Element ''div'' [className ''text-center mb-12'']
      [Element ''span''
         [className ''inline-block px-3 py-1 text-xs font-semibold text-blue-700 bg-blue-50 rounded-full mb-6'']
         [Text ''Peer-Reviewed Research Article''],
       Element ''h1''
         [className ''text-3xl md:text-4xl font-bold text-slate-900 mb-6 leading-tight'']
         [Text ''Optimizing Python Web APIs: A Comparative Analysis of Synchronous and Asynchronous Architectures''],
       author_block as,
       Element ''div''
         [className ''flex items-center justify-center gap-6 text-sm text-slate-500 mt-6'']
         [meta_item ''Calendar'' '' Published: January 15, 2026'',
          meta_item ''FileText'' '' DOI: 10.1234/ss.2026.001'',
          meta_item ''Globe'' '' Views: 12,847'']]"

definition citation :: "string \<Rightarrow> node" where
  "citation marker = Element ''span'' [className ''citation''] [Text marker]"

definition abstract_section :: node where
  "abstract_section =
     Element ''section'' [className ''paper-card mb-8'']
      [Element ''h2'' [className ''abstract-heading''] [Text ''Abstract''],
       Element ''p'' [className ''abstract-text'']
        [Text ''This study presents a comprehensive evaluation of FlaskStack, a novel architectural pattern for building high-performance Python web APIs. We conduct empirical benchmarks comparing synchronous WSGI implementations against asynchronous ASGI-based solutions across multiple metrics including response latency, throughput scalability, and resource utilization. Our findings indicate that FlaskStack achieves a 42% reduction in median response latency and 3.2x higher throughput under concurrent load conditions'',
         citation ''[1]'',
         Text ''. These results have significant implications for organizations seeking to optimize their Python-based web infrastructure for high-concurrency scenarios.''],
       Element ''div'' [className ''footnote'']
        [Element ''strong'' [] [Text ''Keywords:''],
         Text '' Python, Web APIs, Asynchronous Programming, Performance Optimization, Flask, ASGI, Microservices'']]"

definition prose :: "string \<Rightarrow> node list \<Rightarrow> node" where
  "prose margin children =
     Element ''p'' [className (''text-slate-700 leading-relaxed '' @ margin)] children"

definition section_heading :: "string \<Rightarrow> node" where
  "section_heading label = Element ''h2'' [className ''section-heading''] [Text label]"

definition introduction_section :: node where
  "introduction_section =
     Element ''section'' [className ''mb-12'']
      [section_heading ''1. Introduction'',
       prose ''mb-6''
        [Text ''The demand for high-performance web APIs has grown substantially with the proliferation of distributed systems and microservices architectures'',
         citation ''[3]'',
         Text ''. Python, despite its widespread adoption for web development, has historically faced criticism for its synchronous execution model in traditional WSGI deployments.''],
       prose ''mb-6''
        [Text ''FlaskStack addresses these limitations by introducing a hybrid architecture that leverages the strengths of both synchronous and asynchronous programming paradigms. This approach enables developers to maintain the simplicity and familiarity of Flask while achieving performance characteristics comparable to purpose-built async frameworks.''],
       Element ''div'' [className ''paper-card my-8 bg-slate-50'']
        [Element ''div'' [className ''flex items-start gap-3'']
          [icon ''Quote'' ''w-6 h-6 text-slate-400 flex-shrink-0 mt-1'',
           Element ''blockquote'' [className ''text-slate-700 italic'']
            [Text (CHR 0x22 # ''The key innovation of FlaskStack lies in its ability to seamlessly transition between synchronous and asynchronous execution contexts based on workload characteristics, without requiring significant changes to application code.'' @ [CHR 0x22])]]]]"

definition methodology_step :: "string \<Rightarrow> string \<Rightarrow> string \<Rightarrow> node" where
  "methodology_step number heading detail =
     Element ''div'' [className ''methodology-step flex-col'']
      [Element ''div'' [className ''methodology-number mb-3''] [Text number],
       Element ''h4'' [className ''font-semibold text-slate-900 mb-2''] [Text heading],
       Element ''p'' [className ''text-sm text-slate-600''] [Text detail]]"

definition methods_section :: node where
  "methods_section =
     Element ''section'' [className ''mb-12'']
      [section_heading ''2. Methodology'',
       prose ''mb-8''
        [Text ''Our experimental methodology employed a controlled benchmarking environment with standardized hardware and network conditions. We utilized wrk2 as our primary load generation tool, configured to produce consistent request rates across all test scenarios.''],
       Element ''div'' [className ''grid md:grid-cols-3 gap-6 mb-8'']
        [methodology_step ''1'' ''Environment Setup'' ''Python 3.12, 16GB RAM, 8-core CPU'',
         methodology_step ''2'' ''Load Generation'' ''wrk2 with consistent request rates'',
         methodology_step ''3'' ''Metrics Collection'' ''Latency, throughput, memory profiles'']]"

text \<open>The props shared by the animated elements.\<close>

definition fade_in :: "(string \<times> prop_value) list" where
  "fade_in =
     [(''initial'', PObj [(''opacity'', PNum 0), (''y'', PNum 20)]),
      (''animate'', PObj [(''opacity'', PNum 1), (''y'', PNum 0)])]"

text \<open>The body of \<^verbatim>\<open>KEY_FINDINGS.map((finding, idx) => ...)\<close> for one entry.\<close>

definition finding_card :: "nat \<times> Finding \<Rightarrow> node" where
  "finding_card = (\<lambda>(idx, finding).
     Element ''motion.div''
      ((''key'', PNum (int idx)) # fade_in @
       [(''transition'', PObj [(''delay'', PMul (PNum (int idx)) (PDec 1 1))]),
        className ''paper-card text-center''])
      [Element ''div'' [className ''text-4xl font-bold text-slate-900 mb-2'']
         [Text (value_fd finding)],
       Element ''div'' [className ''text-sm font-semibold text-slate-700 mb-3'']
         [Text (metric finding)],
       Element ''p'' [className ''text-xs text-slate-500 leading-relaxed'']
         [Text (description finding)],
       Element ''span'' [className ''citation mt-2 inline-block''] [Text (source finding)]])"

definition finding_grid :: "Finding list \<Rightarrow> node" where
  "finding_grid fs =
     Element ''div'' [className ''grid md:grid-cols-3 gap-6 mb-8'']
       (map finding_card (enumerate 0 fs))"

definition td :: "string \<Rightarrow> node" where
  "td cell = Element ''td'' [] [Text cell]"

definition td_improvement :: "string \<Rightarrow> node" where
  "td_improvement cell = Element ''td'' [className ''text-green-600 font-medium''] [Text cell]"

definition th :: "string \<Rightarrow> node" where
  "th cell = Element ''th'' [] [Text cell]"

definition results_table :: node where
  "results_table =
     Element ''table'' [className ''data-table'']
      [Element ''thead'' []
        [Element ''tr'' []
          [th ''Metric'', th ''Traditional WSGI'', th ''FlaskStack (Async)'', th ''Improvement'']],
       Element ''tbody'' []
        [Element ''tr'' []
          [td ''Median Latency (p50)'', td ''45ms'', td ''26ms'', td_improvement ''42%''],
         Element ''tr'' []
          [td ''99th Percentile (p99)'', td ''128ms'', td ''67ms'', td_improvement ''48%''],
         Element ''tr'' []
          [td ''Requests/Second'', td ''2,450'', td ''7,840'', td_improvement ''3.2x''],
         Element ''tr'' []
          [td ''Memory (steady state)'', td ''256MB'', td ''184MB'', td_improvement ''28%'']]]"

definition results_section :: "Finding list \<Rightarrow> node" where
  "results_section fs =
     Element ''section'' [className ''mb-12'']
      [section_heading ''3. Results'',
       prose ''mb-8''
        [Text ''The benchmarking results demonstrate significant performance improvements across all measured metrics. Below we present the key findings from our empirical evaluation.''],
       finding_grid fs,
       Element ''div'' [className ''paper-card'']
        [Element ''h3'' [className ''font-semibold text-slate-900 mb-4'']
           [Text ''Table 1: Performance Comparison Under Concurrent Load''],
         results_table]]"

definition discussion_section :: node where
  "discussion_section =
     Element ''section'' [className ''mb-12'']
      [section_heading ''4. Discussion'',
       prose ''mb-6''
        [Text ''The results presented in Section 3 have several important implications for practitioners and researchers in the field of web API development. First, the substantial latency improvements demonstrated by FlaskStack suggest that async architectures can be practically adopted without sacrificing the developer experience that Flask provides'',
         citation ''[2]'',
         Text ''.''],
       prose ''mb-6''
        [Text ''Second, the memory efficiency gains observed under sustained load conditions indicate that FlaskStack is particularly well-suited for containerized deployments where resource constraints are a primary concern. This finding aligns with emerging industry trends toward lean, cloud-native application architectures.'']]"

text \<open>
  The body of \<^verbatim>\<open>REFERENCES.map((ref) => ...)\<close> for one entry. The three optional
  properties go through the conditional, each with its own template literal.
\<close>

definition reference_item :: "Reference \<Rightarrow> node" where
  "reference_item ref =
     Element ''div'' [(''key'', PNum (id_ref ref)), className ''reference-item'']
      [Element ''span'' [className ''citation-number mr-2'']
         [Text ''['', Num (id_ref ref), Text '']''],
       Element ''span'' [className ''text-slate-700'']
         [Text (authors ref), Text ''. ('', Text (year ref), Text ''). '',
          Element ''em'' [] [Text (title ref)],
          Text ''. '', Text (journal ref),
          Text (if_truthy (volume ref) (\<lambda>v. '', '' @ v)),
          Text (if_truthy (issue ref) (\<lambda>i. ''('' @ i @ '')'')),
          Text (if_truthy (pages ref) (\<lambda>p. '', '' @ p)),
          Text ''.'']]"

definition references_section :: "Reference list \<Rightarrow> node" where
  "references_section refs =
     Element ''section'' [className ''mb-12'']
      [section_heading ''References'',
       Element ''div'' [className ''paper-card''] (map reference_item refs)]"

definition footer_item :: "string \<Rightarrow> string \<Rightarrow> node" where
  "footer_item component label =
     Element ''span'' [className ''flex items-center gap-1 text-sm text-slate-500'']
       [icon component ''w-4 h-4'', Text label]"

definition page_footer :: node where
  "page_footer =
     Element ''footer'' [className ''text-center pt-8 border-t border-slate-200'']
      [Element ''div'' [className ''flex items-center justify-center gap-6 mb-4'']
        [footer_item ''Award'' '' This paper received the Best Paper Award at PyCon 2026'',
         footer_item ''Users'' '' 847 citations''],
       Element ''p'' [className ''text-xs text-slate-400'']
        [Text (CHR 0xA9 # '' 2026 ScholarStack Research Foundation. All rights reserved.'')]]"

text \<open>
  \<^verbatim>\<open>App\<close> itself: it has no parameter, reads the three module bindings and writes
  none of them, so the scope it returns is the scope it was given.
\<close>

definition App :: "module_scope \<Rightarrow> node \<times> module_scope" where
  "App scope =
    (Element ''div'' [className ''min-h-screen bg-[#fdfbf7]'']
      [page_header,
       Element ''main'' [className ''max-w-5xl mx-auto px-8 py-12'']
        [Element ''motion.article''
          (fade_in @ [(''transition'', PObj [(''duration'', PDec 6 1)])])
          [title_block (authors_binding scope),
           abstract_section,
           introduction_section,
           methods_section,
           results_section (key_findings_binding scope),
           discussion_section,
           references_section (references_binding scope),
           page_footer]]],
     scope)"

text \<open>The document of the shipped page: one call of \<^verbatim>\<open>App\<close> after module load.\<close>

definition StaticPaperView :: node where
  "StaticPaperView = fst (App module_load)"

section \<open>Reading a rendered document\<close>

text \<open>What the DOM calls \<^verbatim>\<open>textContent\<close>: the texts of a subtree, in document order.\<close>

fun text_content :: "node \<Rightarrow> string" where
  "text_content (Text s) = s"
| "text_content (Num i) = number_to_string i"
| "text_content (Element tag props children) = concat (map text_content children)"

fun children_of :: "node \<Rightarrow> node list" where
  "children_of (Element tag props children) = children"
| "children_of _ = []"

fun is_tag :: "string \<Rightarrow> node \<Rightarrow> bool" where
  "is_tag t (Element tag props children) = (tag = t)"
| "is_tag t _ = False"

fun has_class_name :: "string \<Rightarrow> node \<Rightarrow> bool" where
  "has_class_name c (Element tag props children) = (map_of props ''className'' = Some (PStr c))"
| "has_class_name c _ = False"

text \<open>All elements of a subtree that satisfy a test, in document order, the root included.\<close>

fun select :: "(node \<Rightarrow> bool) \<Rightarrow> node \<Rightarrow> node list" where
  "select P (Element tag props children) =
     (if P (Element tag props children) then [Element tag props children] else [])
     @ concat (map (select P) children)"
| "select P _ = []"

definition table_body_rows :: "node \<Rightarrow> string list list" where
  "table_body_rows doc =
     concat (map (\<lambda>body. map (\<lambda>row. map text_content (children_of row)) (children_of body))
                 (select (is_tag ''tbody'') doc))"

definition citation_numbers :: "node \<Rightarrow> string list" where
  "citation_numbers doc = map text_content (select (has_class_name ''citation-number mr-2'') doc)"

definition citation_texts :: "node \<Rightarrow> string list" where
  "citation_texts doc =
     concat (map (\<lambda>item. map text_content (drop 1 (children_of item)))
                 (select (has_class_name ''reference-item'') doc))"


definition author_lines :: "node \<Rightarrow> string list" where
  "author_lines doc =
     concat (map (\<lambda>block. map text_content (children_of block))
                 (select (has_class_name ''author-block'') doc))"

text \<open>The first span of a reference item, and the text of its second span.\<close>

definition citation_number :: "Reference \<Rightarrow> node" where
  "citation_number r =
     Element ''span'' [className ''citation-number mr-2'']
       [Text ''['', Num (id_ref r), Text '']'']"

definition citation_line :: "Reference \<Rightarrow> string" where
  "citation_line r =
     authors r @ ''. ('' @ year r @ ''). '' @ title r @ ''. '' @ journal r @
     if_truthy (volume r) (\<lambda>v. '', '' @ v) @
     if_truthy (issue r) (\<lambda>i. ''('' @ i @ '')'') @
     if_truthy (pages r) (\<lambda>p. '', '' @ p) @ ''.''"

section \<open>The component on the values of the language\<close>

text \<open>
  The records above fix the shape of every entry in advance. At run time the entries are
  object literals, and \<^verbatim>\<open>App\<close> works on whatever values it finds: a property that a
  literal does not declare reads as \<^verbatim>\<open>undefined\<close>, and some operations throw. This
  section states the same component on such values, with \<open>None\<close> for a render that
  throws, so that the render reaching no error is a property of the data and not of the
  types.
\<close>

datatype jsval =
    Undefined
  | JNum int
  | JStr string
  | JObj "(string \<times> jsval) list"
  | JArr "jsval list"

text \<open>
  The read \<^verbatim>\<open>v.k\<close>. On \<^verbatim>\<open>undefined\<close> it throws a TypeError. An object literal
  gives the value of its last property named \<open>k\<close>, or \<^verbatim>\<open>undefined\<close> when it has
  none. A number, a string or an array has none of the properties that \<^verbatim>\<open>App\<close> reads.
\<close>

definition get_prop :: "jsval \<Rightarrow> string \<Rightarrow> jsval option" where
  "get_prop v k =
     (case v of
        Undefined \<Rightarrow> None
      | JObj kvs \<Rightarrow> Some (case map_of (rev kvs) k of None \<Rightarrow> Undefined | Some x \<Rightarrow> x)
      | _ \<Rightarrow> Some Undefined)"

text \<open>
  The conversion of a template literal's \<^verbatim>\<open>${v}\<close>: an array prints as its elements
  joined by commas, an \<^verbatim>\<open>undefined\<close> element as nothing.
\<close>

fun to_string :: "jsval \<Rightarrow> string" where
  "to_string Undefined = ''undefined''"
| "to_string (JNum n) = number_to_string n"
| "to_string (JStr s) = s"
| "to_string (JObj kvs) = ''[object Object]''"
| "to_string (JArr xs) =
     join '','' (map (\<lambda>x. if x = Undefined then [] else to_string x) xs)"

text \<open>\<^verbatim>\<open>xs.join(sep)\<close> on the elements of an array.\<close>

definition array_join :: "string \<Rightarrow> jsval list \<Rightarrow> string" where
  "array_join sep xs = join sep (map (\<lambda>x. if x = Undefined then [] else to_string x) xs)"

text \<open>The test of a conditional.\<close>

fun to_boolean :: "jsval \<Rightarrow> bool" where
  "to_boolean Undefined = False"
| "to_boolean (JNum n) = (n \<noteq> 0)"
| "to_boolean (JStr s) = (s \<noteq> [])"
| "to_boolean (JObj kvs) = True"
| "to_boolean (JArr xs) = True"

definition if_truthy_js :: "jsval \<Rightarrow> (string \<Rightarrow> string) \<Rightarrow> string" where
  "if_truthy_js v f = (if to_boolean v then f (to_string v) else [])"

text \<open>
  A value in child position, \<^verbatim>\<open>{v}\<close>: \<^verbatim>\<open>undefined\<close> renders nothing, a string or
  a number renders as a text, an array renders its elements in order, and an object is
  refused by the framework with an error.
\<close>

fun child :: "jsval \<Rightarrow> node list option" where
  "child Undefined = Some []"
| "child (JNum n) = Some [Num n]"
| "child (JStr s) = Some [Text s]"
| "child (JObj kvs) = None"
| "child (JArr xs) = map_option concat (those (map child xs))"

definition child_prop :: "jsval \<Rightarrow> string \<Rightarrow> node list option" where
  "child_prop v k = Option.bind (get_prop v k) child"

text \<open>
  \<^verbatim>\<open>v.map(f)\<close>: the callback gets each element and its index, and an exception in a
  call ends the whole map. A value that is not an array has no \<^verbatim>\<open>map\<close> to call.
\<close>

definition array_map :: "jsval \<Rightarrow> (jsval \<times> nat \<Rightarrow> 'b option) \<Rightarrow> 'b list option" where
  "array_map v f =
     (case v of JArr xs \<Rightarrow> those (map f (zip xs [0..<length xs])) | _ \<Rightarrow> None)"


text \<open>The prop \<^verbatim>\<open>key={v}\<close>: no key for \<^verbatim>\<open>undefined\<close>, a number kept as it is.\<close>

definition key_prop :: "jsval \<Rightarrow> (string \<times> prop_value) list" where
  "key_prop v =
     (case v of
        Undefined \<Rightarrow> []
      | JNum n \<Rightarrow> [(''key'', PNum n)]
      | _ \<Rightarrow> [(''key'', PStr (to_string v))])"

text \<open>The three array literals of the module, property by property as they are written.\<close>

definition REFERENCES_js :: jsval where
  "REFERENCES_js = JArr
    [JObj [(''id'', JNum 1), (''authors'', JStr ''Smith, J., & Johnson, K.''),
       (''title'', JStr ''Scalable API Architecture Patterns''),
       (''journal'', JStr ''Journal of Systems Architecture''), (''year'', JStr ''2024''),
       (''volume'', JStr ''142''), (''pages'', JStr ''102889'')],
     JObj [(''id'', JNum 2), (''authors'', JStr ''Chen, L., et al.''),
       (''title'', JStr ''Async Performance Benchmarks in Python''),
       (''journal'', JStr ''Proceedings of the 2024 Python Conference''),
       (''year'', JStr ''2024''), (''pages'', JStr ''234-251'')],
     JObj [(''id'', JNum 3), (''authors'', JStr ''Williams, R., & Davis, M.''),
       (''title'', JStr ''Microservices Communication Patterns''),
       (''journal'', JStr ''IEEE Software''), (''year'', JStr ''2023''),
       (''volume'', JStr ''40''), (''issue'', JStr ''3''), (''pages'', JStr ''45-58'')]]"

definition KEY_FINDINGS_js :: jsval where
  "KEY_FINDINGS_js = JArr
    [JObj [(''metric'', JStr ''Response Latency''), (''value'', JStr ''42%''),
       (''description'', JStr ''Reduction in median response time compared to traditional WSGI implementations''),
       (''source'', JStr ''[2]'')],
     JObj [(''metric'', JStr ''Throughput''), (''value'', JStr ''3.2x''),
       (''description'', JStr ''Higher request throughput under concurrent load conditions''),
       (''source'', JStr ''[2]'')],
     JObj [(''metric'', JStr ''Memory Usage''), (''value'', JStr ''28%''),
       (''description'', JStr ''Lower memory footprint during sustained operation''),
       (''source'', JStr ''[1]'')]]"

definition AUTHORS_js :: jsval where
  "AUTHORS_js = JArr
    [JObj [(''name'', JStr ''Dr. Sarah Mitchell''),
       (''affiliation'', JStr ''Department of Computer Science, Stanford University'')],
     JObj [(''name'', JStr ''Prof. James Chen''),
       (''affiliation'', JStr ''Software Systems Laboratory, MIT'')],
     JObj [(''name'', JStr ''Dr. Emily Watson''),
       (''affiliation'', JStr ''Data Science Institute, Oxford University'')]]"

record js_module =
  references_js :: jsval
  key_findings_js :: jsval
  authors_js :: jsval

definition module_literals :: js_module where
  "module_literals =
     \<lparr>references_js = REFERENCES_js, key_findings_js = KEY_FINDINGS_js,
      authors_js = AUTHORS_js\<rparr>"

text \<open>
  The data-dependent parts of \<^verbatim>\<open>App\<close> once more, now with every read and every child
  checked; the JSX around them is the same as above.
\<close>

definition author_block_js :: "jsval \<Rightarrow> node option" where
  "author_block_js as =
     Option.bind (array_map as (\<lambda>(a, i). get_prop a ''name'')) (\<lambda>names.
     Option.bind (array_map as (\<lambda>(a, i). get_prop a ''affiliation'')) (\<lambda>affiliations.
     Some (Element ''div'' [className ''author-block'']
      [Element ''p'' [className ''author-name''] [Text (array_join '', '' names)],
       Element ''p'' [className ''author-affiliation'']
         [Text (array_join ''; '' affiliations)]])))"

definition title_block_js :: "jsval \<Rightarrow> node option" where
  "title_block_js as =
     Option.bind (author_block_js as) (\<lambda>block.
     Some (Element ''div'' [className ''text-center mb-12'']
      [Element ''span''
         [className ''inline-block px-3 py-1 text-xs font-semibold text-blue-700 bg-blue-50 rounded-full mb-6'']
         [Text ''Peer-Reviewed Research Article''],
       Element ''h1''
         [className ''text-3xl md:text-4xl font-bold text-slate-900 mb-6 leading-tight'']
         [Text ''Optimizing Python Web APIs: A Comparative Analysis of Synchronous and Asynchronous Architectures''],
       block,
       Element ''div''
         [className ''flex items-center justify-center gap-6 text-sm text-slate-500 mt-6'']
         [meta_item ''Calendar'' '' Published: January 15, 2026'',
          meta_item ''FileText'' '' DOI: 10.1234/ss.2026.001'',
          meta_item ''Globe'' '' Views: 12,847'']]))"

definition finding_card_js :: "jsval \<times> nat \<Rightarrow> node option" where
  "finding_card_js = (\<lambda>(finding, idx).
     Option.bind (child_prop finding ''value'') (\<lambda>shown_value.
     Option.bind (child_prop finding ''metric'') (\<lambda>shown_metric.
     Option.bind (child_prop finding ''description'') (\<lambda>shown_description.
     Option.bind (child_prop finding ''source'') (\<lambda>shown_source.
     Some (Element ''motion.div''
      ((''key'', PNum (int idx)) # fade_in @
       [(''transition'', PObj [(''delay'', PMul (PNum (int idx)) (PDec 1 1))]),
        className ''paper-card text-center''])
      [Element ''div'' [className ''text-4xl font-bold text-slate-900 mb-2''] shown_value,
       Element ''div'' [className ''text-sm font-semibold text-slate-700 mb-3''] shown_metric,
       Element ''p'' [className ''text-xs text-slate-500 leading-relaxed''] shown_description,
       Element ''span'' [className ''citation mt-2 inline-block''] shown_source]))))))"

definition results_section_js :: "jsval \<Rightarrow> node option" where
  "results_section_js fs =
     Option.bind (array_map fs finding_card_js) (\<lambda>cards.
     Some (Element ''section'' [className ''mb-12'']
      [section_heading ''3. Results'',
       prose ''mb-8''
        [Text ''The benchmarking results demonstrate significant performance improvements across all measured metrics. Below we present the key findings from our empirical evaluation.''],
       Element ''div'' [className ''grid md:grid-cols-3 gap-6 mb-8''] cards,
       Element ''div'' [className ''paper-card'']
        [Element ''h3'' [className ''font-semibold text-slate-900 mb-4'']
           [Text ''Table 1: Performance Comparison Under Concurrent Load''],
         results_table]]))"

definition reference_item_js :: "jsval \<times> nat \<Rightarrow> node option" where
  "reference_item_js = (\<lambda>(ref, idx).
     Option.bind (get_prop ref ''id'') (\<lambda>ref_id.
     Option.bind (child ref_id) (\<lambda>shown_id.
     Option.bind (child_prop ref ''authors'') (\<lambda>shown_authors.
     Option.bind (child_prop ref ''year'') (\<lambda>shown_year.
     Option.bind (child_prop ref ''title'') (\<lambda>shown_title.
     Option.bind (child_prop ref ''journal'') (\<lambda>shown_journal.
     Option.bind (get_prop ref ''volume'') (\<lambda>ref_volume.
     Option.bind (get_prop ref ''issue'') (\<lambda>ref_issue.
     Option.bind (get_prop ref ''pages'') (\<lambda>ref_pages.
     Some (Element ''div'' (key_prop ref_id @ [className ''reference-item''])
      [Element ''span'' [className ''citation-number mr-2'']
         ([Text ''[''] @ shown_id @ [Text '']'']),
       Element ''span'' [className ''text-slate-700'']
         (shown_authors @ [Text ''. (''] @ shown_year @
          [Text ''). '', Element ''em'' [] shown_title, Text ''. ''] @ shown_journal @
          [Text (if_truthy_js ref_volume (\<lambda>v. '', '' @ v)),
           Text (if_truthy_js ref_issue (\<lambda>i. ''('' @ i @ '')'')),
           Text (if_truthy_js ref_pages (\<lambda>p. '', '' @ p)),
           Text ''.''])])))))))))))"

definition references_section_js :: "jsval \<Rightarrow> node option" where
  "references_section_js refs =
     Option.bind (array_map refs reference_item_js) (\<lambda>items.
     Some (Element ''section'' [className ''mb-12'']
      [section_heading ''References'',
       Element ''div'' [className ''paper-card''] items]))"

definition App_js :: "js_module \<Rightarrow> node option" where
  "App_js m =
     Option.bind (title_block_js (authors_js m)) (\<lambda>title_part.
     Option.bind (results_section_js (key_findings_js m)) (\<lambda>results_part.
     Option.bind (references_section_js (references_js m)) (\<lambda>references_part.
     Some (Element ''div'' [className ''min-h-screen bg-[#fdfbf7]'']
      [page_header,
       Element ''main'' [className ''max-w-5xl mx-auto px-8 py-12'']
        [Element ''motion.article''
          (fade_in @ [(''transition'', PObj [(''duration'', PDec 6 1)])])
          [title_part,
           abstract_section,
           introduction_section,
           methods_section,
           results_part,
           discussion_section,
           references_part,
           page_footer]]]))))"






section \<open>The styling configuration\<close>

text \<open>The default export of \<^verbatim>\<open>tailwind.config.js\<close>; object literals keep their key order.\<close>

record extend_options =
  colors :: "(string \<times> string) list"
  fontFamily :: "(string \<times> string list) list"
  boxShadow :: "(string \<times> string) list"

record theme_options =
  extend_theme :: extend_options

record config =
  content :: "string list"
  theme :: theme_options
  plugins :: "string list"

definition tailwind_config :: config where
  "tailwind_config =
     \<lparr>content = [''./index.html'', ''./src/**/*.{js,ts,jsx,tsx}''],
      theme = \<lparr>extend_theme =
        \<lparr>colors = [(''flask'', ''#0891b2''), (''dark'', ''#020617'')],
         fontFamily = [(''mono'', [''JetBrains Mono'', ''Fira Code'', ''monospace''])],
         boxShadow =
           [(''neon'', ''0 0 15px rgba(0, 180, 216, 0.2)''),
            (''neon-strong'', ''0 0 20px rgba(0, 180, 216, 0.3)'')]\<rparr>\<rparr>,
      plugins = []\<rparr>"

section \<open>Selecting from the page of any scope\<close>

lemmas static_defs =
  page_header_def title_block_def abstract_section_def introduction_section_def
  methods_section_def results_section_def discussion_section_def references_section_def
  page_footer_def nav_link_def icon_def className_def meta_item_def citation_def prose_def
  section_heading_def methodology_step_def fade_in_def finding_grid_def td_def
  td_improvement_def th_def results_table_def footer_item_def author_block_def

lemma select_comp_Nil:
  "(\<And>x. select P (f x) = []) \<Longrightarrow> concat (map (select P \<circ> f) xs) = []"
  by (induction xs) simp_all

lemma select_comp_one:
  "(\<And>x. select P (f x) = [g x]) \<Longrightarrow> concat (map (select P \<circ> f) xs) = map g xs"
  by (induction xs) simp_all

lemma join_Cons: "join sep (x # xs) = x @ concat (map (\<lambda>y. sep @ y) xs)"
  by (induction xs arbitrary: x) simp_all

subsection \<open>Decimal numerals determine the number\<close>

lemma digit_char_inj: "d < 10 \<Longrightarrow> e < 10 \<Longrightarrow> digit_char d = digit_char e \<Longrightarrow> d = e"
proof -
  assume d: "d < 10" and e: "e < 10" and eq: "digit_char d = digit_char e"
  from eq have "of_char (char_of (48 + d) :: char) = (of_char (char_of (48 + e) :: char) :: nat)"
    by (simp add: digit_char_def)
  with d e show "d = e" by (simp add: of_char_of)
qed

lemma digit_char_not_minus: "d < 10 \<Longrightarrow> digit_char d \<noteq> CHR ''-''"
proof
  assume d: "d < 10" and eq: "digit_char d = CHR ''-''"
  from eq have "of_char (char_of (48 + d) :: char) = (of_char (CHR ''-'') :: nat)"
    by (simp add: digit_char_def)
  with d show False by (simp add: of_char_of)
qed

lemma nat_to_string_not_Nil: "nat_to_string n \<noteq> []"
  by (subst nat_to_string.simps) simp

lemma nat_to_string_no_minus: "CHR ''-'' \<notin> set (nat_to_string n)"
proof (induction n rule: nat_to_string.induct)
  case (1 n)
  have last_digit: "CHR ''-'' \<noteq> digit_char (n mod 10)"
    using digit_char_not_minus [of "n mod 10"] by auto
  show ?case
  proof (cases "n < 10")
    case True
    with digit_char_not_minus [of n] show ?thesis
      by (subst nat_to_string.simps) auto
  next
    case False
    with "1.IH" last_digit show ?thesis
      by (subst nat_to_string.simps) simp
  qed
qed

lemma nat_to_string_inj: "nat_to_string m = nat_to_string n \<Longrightarrow> m = n"
proof (induction m arbitrary: n rule: nat_to_string.induct)
  case (1 m)
  show ?case
  proof (cases "m < 10")
    case m: True
    show ?thesis
    proof (cases "n < 10")
      case True
      with m "1.prems" show ?thesis
        by (simp add: nat_to_string.simps [of m] nat_to_string.simps [of n] digit_char_inj)
    next
      case False
      with m "1.prems" nat_to_string_not_Nil [of "n div 10"] show ?thesis
        by (simp add: nat_to_string.simps [of m] nat_to_string.simps [of n] append_eq_Cons_conv)
    qed
  next
    case m: False
    show ?thesis
    proof (cases "n < 10")
      case True
      with m "1.prems" nat_to_string_not_Nil [of "m div 10"] show ?thesis
        by (simp add: nat_to_string.simps [of m] nat_to_string.simps [of n] append_eq_Cons_conv Cons_eq_append_conv)
    next
      case False
      with m "1.prems" have "nat_to_string (m div 10) = nat_to_string (n div 10)"
        and "digit_char (m mod 10) = digit_char (n mod 10)"
        by (simp_all add: nat_to_string.simps [of m] nat_to_string.simps [of n])
      with m "1.IH" have "m div 10 = n div 10" and "m mod 10 = n mod 10"
        by (auto intro: digit_char_inj)
      then show ?thesis by (metis div_mult_mod_eq)
    qed
  qed
qed

lemma number_to_string_inj: "number_to_string i = number_to_string j \<Longrightarrow> i = j"
proof -
  assume eq: "number_to_string i = number_to_string j"
  have no_minus: "nat_to_string n \<noteq> CHR ''-'' # s" for n s
    using nat_to_string_no_minus [of n] by auto
  show "i = j"
  proof (cases "i < 0")
    case i: True
    show ?thesis
    proof (cases "j < 0")
      case True
      with i eq have "nat (- i) = nat (- j)"
        by (simp add: number_to_string_def nat_to_string_inj)
      with i True show ?thesis by simp
    next
      case False
      with i eq have "nat_to_string (nat j) = CHR ''-'' # nat_to_string (nat (- i))"
        by (simp add: number_to_string_def)
      with no_minus show ?thesis by blast
    qed
  next
    case i: False
    show ?thesis
    proof (cases "j < 0")
      case True
      with i eq have "nat_to_string (nat i) = CHR ''-'' # nat_to_string (nat (- j))"
        by (simp add: number_to_string_def)
      with no_minus show ?thesis by blast
    next
      case False
      with i eq have "nat i = nat j"
        by (simp add: number_to_string_def nat_to_string_inj)
      with i False show ?thesis by simp
    qed
  qed
qed

subsection \<open>Table bodies\<close>

lemma tbody_finding_card: "select (is_tag ''tbody'') (finding_card p) = []"
  by (cases p) (simp add: finding_card_def)

lemma tbody_reference_item: "select (is_tag ''tbody'') (reference_item r) = []"
  by (simp add: reference_item_def)

lemma table_body_rows_App:
  "table_body_rows (fst (App scope)) =
     [[''Median Latency (p50)'', ''45ms'', ''26ms'', ''42%''],
      [''99th Percentile (p99)'', ''128ms'', ''67ms'', ''48%''],
      [''Requests/Second'', ''2,450'', ''7,840'', ''3.2x''],
      [''Memory (steady state)'', ''256MB'', ''184MB'', ''28%'']]"
  by (simp add: table_body_rows_def App_def static_defs select_comp_Nil
      tbody_finding_card tbody_reference_item)

subsection \<open>Finding cards\<close>







subsection \<open>Reference items\<close>

lemma number_finding_card:
  "select (has_class_name ''citation-number mr-2'') (finding_card p) = []"
  by (cases p) (simp add: finding_card_def className_def fade_in_def)

lemma number_reference_item:
  "select (has_class_name ''citation-number mr-2'') (reference_item r) = [citation_number r]"
  by (simp add: reference_item_def className_def citation_number_def)

lemma select_number_App:
  "select (has_class_name ''citation-number mr-2'') (fst (App scope)) =
     map citation_number (references_binding scope)"
  by (simp add: App_def static_defs select_comp_Nil number_finding_card
      select_comp_one number_reference_item)

lemma citation_numbers_App:
  "citation_numbers (fst (App scope)) =
     map (\<lambda>r. ''['' @ number_to_string (id_ref r) @ '']'') (references_binding scope)"
  by (simp add: citation_numbers_def select_number_App citation_number_def)

text \<open>Distinct ids are shown as distinct citation numbers, whatever the scope holds.\<close>

lemma citation_numbers_distinct:
  "distinct (map id_ref (references_binding scope)) \<Longrightarrow>
   distinct (citation_numbers (fst (App scope)))"
proof -
  assume d: "distinct (map id_ref (references_binding scope))"
  have inj: "inj (\<lambda>i. ''['' @ number_to_string i @ '']'')"
    by (rule injI) (simp add: number_to_string_inj)
  have "citation_numbers (fst (App scope)) =
      map (\<lambda>i. ''['' @ number_to_string i @ '']'') (map id_ref (references_binding scope))"
    by (simp add: citation_numbers_App comp_def)
  with d inj show ?thesis
    by (simp only: distinct_map) (auto intro: inj_on_subset)
qed

lemma item_finding_card: "select (has_class_name ''reference-item'') (finding_card p) = []"
  by (cases p) (simp add: finding_card_def className_def fade_in_def)

lemma item_reference_item:
  "select (has_class_name ''reference-item'') (reference_item r) = [reference_item r]"
  by (simp add: reference_item_def className_def)

lemma select_item_App:
  "select (has_class_name ''reference-item'') (fst (App scope)) =
     map reference_item (references_binding scope)"
  by (simp add: App_def static_defs select_comp_Nil item_finding_card
      select_comp_one item_reference_item)

lemma citation_texts_App:
  "citation_texts (fst (App scope)) = map citation_line (references_binding scope)"
proof -
  have "concat (map (\<lambda>r. map text_content (drop 1 (children_of (reference_item r)))) rs) =
      map citation_line rs" for rs
    by (induction rs) (simp_all add: reference_item_def citation_line_def)
  then show ?thesis
    by (simp add: citation_texts_def select_item_App comp_def)
qed

subsection \<open>The author block\<close>

lemma block_finding_card: "select (has_class_name ''author-block'') (finding_card p) = []"
  by (cases p) (simp add: finding_card_def className_def fade_in_def)

lemma block_reference_item: "select (has_class_name ''author-block'') (reference_item r) = []"
  by (simp add: reference_item_def className_def)

lemma author_lines_App:
  "author_lines (fst (App scope)) =
     [join '', '' (map name (authors_binding scope)),
      join ''; '' (map affiliation (authors_binding scope))]"
  by (simp add: author_lines_def App_def static_defs select_comp_Nil
      block_finding_card block_reference_item)

subsection \<open>The scope after module load\<close>

lemma module_load_bindings:
  "references_binding module_load = REFERENCES"
  "key_findings_binding module_load = KEY_FINDINGS"
  "authors_binding module_load = AUTHORS"
  by (simp_all add: module_load_def)

section \<open>The render on the values of the language\<close>













text \<open>
  The checks are not idle: an array with a hole, a binding that is no array, and an object
  in child position each make the render throw.
\<close>

lemma App_js_throws_on_hole:
  "App_js (module_literals\<lparr>authors_js := JArr [Undefined]\<rparr>) = None"
  by code_simp

lemma App_js_throws_on_missing_array:
  "App_js (module_literals\<lparr>key_findings_js := Undefined\<rparr>) = None"
  by code_simp

lemma App_js_throws_on_object_child:
  "App_js (module_literals\<lparr>key_findings_js := JArr [JObj [(''value'', JObj [])]]\<rparr>) = None"
  by code_simp

section \<open>The claims\<close>

text \<open>
  Claim C1, as stated, fails on the third row: the cells of the shipped page are not
  \<open>2450\<close> and \<open>7840\<close>. The control is the list the claim gives, for the three cells after
  each row's label.
\<close>

theorem results_table_not_plain_digits:
  "map (drop 1) (table_body_rows StaticPaperView) \<noteq>
     [[''45ms'', ''26ms'', ''42%''], [''128ms'', ''67ms'', ''48%''],
      [''2450'', ''7840'', ''3.2x''], [''256MB'', ''184MB'', ''28%'']]"
  by (simp add: StaticPaperView_def table_body_rows_App)

text \<open>
  Claim C1, amended: whatever the module scope holds, the page has exactly one table body
  with exactly 4 rows, and the three cells after each row's label are, in order,
  (45ms, 26ms, 42%), (128ms, 67ms, 48%), (2,450, 7,840, 3.2x), (256MB, 184MB, 28%):
  the two request rates carry a thousands separator.
\<close>

theorem results_table_rows:
  "length (table_body_rows (fst (App scope))) = 4 \<and>
   map (drop 1) (table_body_rows (fst (App scope))) =
     [[''45ms'', ''26ms'', ''42%''], [''128ms'', ''67ms'', ''48%''],
      [''2,450'', ''7,840'', ''3.2x''], [''256MB'', ''184MB'', ''28%'']]"
  by (simp add: table_body_rows_App)

text \<open>
  Claim C2: the citation numbers of the shipped page are the bracketed ids of
  \<open>REFERENCES\<close>, entry by entry in the order of the array; each entry's bracketed id is
  shown by exactly one citation number; and the ids ascend strictly along the array.
\<close>

theorem references_listed_once_in_id_order:
  "citation_numbers StaticPaperView =
     map (\<lambda>r. ''['' @ number_to_string (id_ref r) @ '']'') REFERENCES \<and>
   (\<forall>r \<in> set REFERENCES.
      length (filter (\<lambda>shown. shown = ''['' @ number_to_string (id_ref r) @ '']'')
                (citation_numbers StaticPaperView)) = 1) \<and>
   sorted_wrt (<) (map id_ref REFERENCES)"
proof (intro conjI)
  show shown: "citation_numbers StaticPaperView =
      map (\<lambda>r. ''['' @ number_to_string (id_ref r) @ '']'') REFERENCES"
    by (simp add: StaticPaperView_def citation_numbers_App module_load_bindings)
  have labels:
    "map (\<lambda>r. ''['' @ number_to_string (id_ref r) @ '']'') REFERENCES =
       [''[1]'', ''[2]'', ''[3]'']"
    by code_simp
  show "\<forall>r \<in> set REFERENCES.
      length (filter (\<lambda>shown. shown = ''['' @ number_to_string (id_ref r) @ '']'')
                (citation_numbers StaticPaperView)) = 1"
    unfolding shown labels by code_simp
  show "sorted_wrt (<) (map id_ref REFERENCES)"
    by (simp add: REFERENCES_def)
qed

text \<open>
  Claim C2 at the first entry of \<open>REFERENCES\<close>: it is an entry, its bracketed id is
  \<open>[1]\<close>, and one citation number of the page shows it.
\<close>

theorem references_listed_once_in_id_order_witness:
  "REFERENCES ! 0 \<in> set REFERENCES \<and>
   length (filter (\<lambda>shown. shown = ''[1]'') (citation_numbers StaticPaperView)) = 1"
proof -
  have mem: "REFERENCES ! 0 \<in> set REFERENCES"
    by (simp add: REFERENCES_def)
  have one: "''['' @ number_to_string (id_ref (REFERENCES ! 0)) @ '']'' = ''[1]''"
    by code_simp
  from references_listed_once_in_id_order have "\<forall>r \<in> set REFERENCES.
      length (filter (\<lambda>shown. shown = ''['' @ number_to_string (id_ref r) @ '']'')
                (citation_numbers StaticPaperView)) = 1"
    by blast
  from bspec [OF this mem] one mem show ?thesis by simp
qed


text \<open>
  Claim C4: the author block of the shipped page has two lines. The first is the names of
  \<open>AUTHORS\<close> joined by a comma and a blank, the second the affiliations joined by a
  semicolon and a blank, both in the order of the array.
\<close>

theorem author_block_lines:
  "author_lines StaticPaperView =
     [join '', '' (map name AUTHORS), join ''; '' (map affiliation AUTHORS)] \<and>
   length AUTHORS = 3 \<and>
   author_lines StaticPaperView =
     [name (AUTHORS ! 0) @ '', '' @ name (AUTHORS ! 1) @ '', '' @ name (AUTHORS ! 2),
      affiliation (AUTHORS ! 0) @ ''; '' @ affiliation (AUTHORS ! 1) @ ''; '' @
        affiliation (AUTHORS ! 2)] \<and>
   author_lines StaticPaperView =
     [''Dr. Sarah Mitchell, Prof. James Chen, Dr. Emily Watson'',
      ''Department of Computer Science, Stanford University; Software Systems Laboratory, MIT; Data Science Institute, Oxford University'']"
  by (simp add: StaticPaperView_def author_lines_App module_load_bindings AUTHORS_def)

text \<open>
  Claim C6: the ids of \<open>REFERENCES\<close> are the integers 1, 2, 3 in this order: they count
  up from 1 in steps of one along the array, and no two are equal.
\<close>

theorem reference_ids_sequential:
  "map id_ref REFERENCES = map int [1..<Suc (length REFERENCES)] \<and>
   map id_ref REFERENCES = [1, 2, 3] \<and>
   distinct (map id_ref REFERENCES)"
  by (simp add: REFERENCES_def upt_rec)



text \<open>
  Claim C8: the styling configuration lists two source paths to scan, and extends the
  theme by exactly two colours (\<open>flask\<close>, \<open>dark\<close>), one font stack (\<open>mono\<close>) and exactly
  two shadows (\<open>neon\<close>, \<open>neon-strong\<close>).
\<close>

theorem tailwind_config_shape:
  "content tailwind_config \<noteq> [] \<and>
   map fst (colors (extend_theme (theme tailwind_config))) = [''flask'', ''dark''] \<and>
   length (colors (extend_theme (theme tailwind_config))) = 2 \<and>
   map fst (fontFamily (extend_theme (theme tailwind_config))) = [''mono''] \<and>
   length (fontFamily (extend_theme (theme tailwind_config))) = 1 \<and>
   map fst (boxShadow (extend_theme (theme tailwind_config))) = [''neon'', ''neon-strong''] \<and>
   length (boxShadow (extend_theme (theme tailwind_config))) = 2"
  by (simp add: tailwind_config_def)

text \<open>
  Claim C9: the citation texts of the shipped page are, entry by entry of \<open>REFERENCES\<close>,
  authors, year, title and journal in the fixed format, then a comma, a blank and the
  volume exactly when there is a volume, the issue in parentheses exactly when there is an
  issue, a comma, a blank and the pages exactly when there are pages, and a full stop; an
  absent property leaves nothing in the text.
\<close>

theorem citation_optional_fields:
  "citation_texts StaticPaperView =
     map (\<lambda>r. authors r @ ''. ('' @ year r @ ''). '' @ title r @ ''. '' @ journal r @
               (case volume r of None \<Rightarrow> [] | Some v \<Rightarrow> '', '' @ v) @
               (case issue r of None \<Rightarrow> [] | Some i \<Rightarrow> ''('' @ i @ '')'') @
               (case pages r of None \<Rightarrow> [] | Some p \<Rightarrow> '', '' @ p) @ ''.'') REFERENCES \<and>
   citation_texts StaticPaperView =
     [''Smith, J., & Johnson, K.. (2024). Scalable API Architecture Patterns. Journal of Systems Architecture, 142, 102889.'',
      ''Chen, L., et al.. (2024). Async Performance Benchmarks in Python. Proceedings of the 2024 Python Conference, 234-251.'',
      ''Williams, R., & Davis, M.. (2023). Microservices Communication Patterns. IEEE Software, 40(3), 45-58.'']"
  by (simp add: StaticPaperView_def citation_texts_App module_load_bindings REFERENCES_def
      citation_line_def if_truthy_def)

text \<open>
  Claim C10: the \<^verbatim>\<open>source\<close> of every entry of \<open>KEY_FINDINGS\<close> is the bracketed id
  of some entry of \<open>REFERENCES\<close>.
\<close>

theorem finding_sources_cite_references:
  "\<forall>f \<in> set KEY_FINDINGS. \<exists>r \<in> set REFERENCES.
     source f = ''['' @ number_to_string (id_ref r) @ '']''"
  by code_simp

text \<open>
  Claim C10 at the first entry of \<open>KEY_FINDINGS\<close>: it is an entry, and its source is the
  bracketed id of a reference.
\<close>

theorem finding_sources_cite_references_witness:
  "KEY_FINDINGS ! 0 \<in> set KEY_FINDINGS \<and>
   (\<exists>r \<in> set REFERENCES.
      source (KEY_FINDINGS ! 0) = ''['' @ number_to_string (id_ref r) @ '']'')"
proof -
  have mem: "KEY_FINDINGS ! 0 \<in> set KEY_FINDINGS"
    by (simp add: KEY_FINDINGS_def)
  from bspec [OF finding_sources_cite_references mem] mem show ?thesis by simp
qed

end
